theory Spec2Isabelle
  imports Main "HOL-Library.Word" "HOL-Library.Sublist"
begin

section \<open>Values crossing the Penpal boundary\<close>

text \<open>
  The service (the source file \<^verbatim>\<open>unnamed/part_000\<close>, which the page imports as
  \<^verbatim>\<open>./services/penpal-service\<close>) receives an image either as a string or as a
  \<^verbatim>\<open>Blob\<close>, and hands a \<^verbatim>\<open>File\<close> to the processing library. Line numbers
  below are those of that file, and for the page those of \<^verbatim>\<open>IFRAME_INTEGRATION.md\<close>,
  which carries the page's source. A string is modelled as a HOL \<open>string\<close>, that is a list of code units below
  256: that is the range of \<^verbatim>\<open>atob\<close>'s output, and \<^verbatim>\<open>atob\<close> refuses an input
  holding any other code unit exactly as it refuses every character outside the base64
  alphabet. The \<open>type\<close> of a Blob is the string the platform stores for it.
\<close>

type_synonym byte = "8 word"

record blob =
  blob_bytes :: "byte list"
  blob_type :: string

record jsfile =
  file_bytes :: "byte list"
  file_name :: string
  file_type :: string

datatype image_data = StringData string | BlobData blob

text \<open>
  What a \<^verbatim>\<open>catch\<close> clause can receive: an object for which
  \<^verbatim>\<open>error instanceof Error\<close> holds (it has a name and a message; a DOMException is
  one), or any other value.
\<close>

datatype thrown = ErrorObj (error_name: string) (error_message: string) | NonError

section \<open>String primitives of the platform\<close>

text \<open>
  \<^verbatim>\<open>String.prototype.indexOf\<close>, \<^verbatim>\<open>includes\<close> and \<^verbatim>\<open>split\<close> with a string
  separator: \<open>split\<close> cuts at the first occurrence of the separator and goes on behind
  it.
\<close>

fun indexOf :: "string \<Rightarrow> string \<Rightarrow> nat option" where
  "indexOf [] sep = (if sep = [] then Some 0 else None)"
| "indexOf (c # cs) sep =
     (if prefix sep (c # cs) then Some 0 else map_option Suc (indexOf cs sep))"

definition js_includes :: "string \<Rightarrow> string \<Rightarrow> bool" where
  "js_includes s sep = (indexOf s sep \<noteq> None)"

function js_split :: "string \<Rightarrow> string \<Rightarrow> string list" where
  "js_split s sep =
     (if sep = [] then map (\<lambda>c. [c]) s
      else case indexOf s sep of
             None \<Rightarrow> [s]
           | Some i \<Rightarrow> take i s # js_split (drop (i + length sep) s) sep)"
  by pat_completeness auto
termination
proof (relation "measure (\<lambda>(s, sep). length s)")
  show "wf (measure (\<lambda>(s, sep). length s))" by simp
next
  fix s sep :: string and i
  assume sep: "sep \<noteq> []" and found: "indexOf s sep = Some i"
  have bound: "indexOf t sep = Some k \<Longrightarrow> k + length sep \<le> length t" for t k
  proof (induction t arbitrary: k)
    case Nil
    then show ?case by (simp split: if_splits)
  next
    case (Cons c cs)
    show ?case
    proof (cases "prefix sep (c # cs)")
      case True
      with Cons.prems have "k = 0" by simp
      with prefix_length_le [OF True] show ?thesis by simp
    next
      case False
      with Cons.prems obtain j where "indexOf cs sep = Some j" "k = Suc j" by auto
      with Cons.IH show ?thesis by simp
    qed
  qed
  from sep have "1 \<le> length sep" by (simp add: Suc_le_eq)
  moreover from found have "i + length sep \<le> length s" by (rule bound)
  ultimately have "length (drop (i + length sep) s) < length s"
    unfolding length_drop by arith
  then show "((drop (i + length sep) s, sep), (s, sep)) \<in> measure (\<lambda>(s, sep). length s)"
    by simp
qed

declare js_split.simps [simp del]

text \<open>
  \<^verbatim>\<open>xs[1]\<close> on an array: the element, or \<^verbatim>\<open>undefined\<close>, which
  \<^verbatim>\<open>atob\<close> would read as the string "undefined".
\<close>

definition second_or_undefined :: "string list \<Rightarrow> string" where
  "second_or_undefined xs = (case xs of _ # x # _ \<Rightarrow> x | _ \<Rightarrow> ''undefined'')"

section \<open>Base64: \<^verbatim>\<open>atob\<close> and the data URL of \<^verbatim>\<open>FileReader\<close>\<close>

definition b64_alphabet :: string where
  "b64_alphabet = ''ABCDEFGHIJKLMNOPQRSTUVWXYZabcdefghijklmnopqrstuvwxyz0123456789+/''"

fun index_of :: "'a \<Rightarrow> 'a list \<Rightarrow> nat option" where
  "index_of x [] = None"
| "index_of x (y # ys) = (if x = y then Some 0 else map_option Suc (index_of x ys))"

definition b64_value :: "char \<Rightarrow> nat option" where
  "b64_value c = index_of c b64_alphabet"

definition b64_char :: "nat \<Rightarrow> char" where
  "b64_char n = b64_alphabet ! n"

definition is_ascii_whitespace :: "char \<Rightarrow> bool" where
  "is_ascii_whitespace c = (c \<in> set [CHR 0x09, CHR 0x0A, CHR 0x0C, CHR 0x0D, CHR 0x20])"

text \<open>
  The platform's \<^verbatim>\<open>atob\<close> is the forgiving base64 decoding of the HTML standard:
  ASCII whitespace is dropped; when the length is then a multiple of four, one or two
  closing \<open>=\<close> are dropped; a length of 1 modulo 4 or a character outside the alphabet
  is a failure (the \<^verbatim>\<open>InvalidCharacterError\<close> exception); four characters give
  three bytes, and two or three left-over characters give one or two bytes, their
  spare low bits discarded. The result is a string of code units below 256.
\<close>

definition strip_padding :: "string \<Rightarrow> string" where
  "strip_padding d =
     (if length d mod 4 = 0 then
        (if suffix ''=='' d then take (length d - 2) d
         else if suffix ''='' d then take (length d - 1) d
         else d)
      else d)"

fun decode_sextets :: "nat list \<Rightarrow> nat list" where
  "decode_sextets (a # b # c # d # rest) =
     [a * 4 + b div 16, (b mod 16) * 16 + c div 4, (c mod 4) * 64 + d] @ decode_sextets rest"
| "decode_sextets [a, b, c] = [a * 4 + b div 16, (b mod 16) * 16 + c div 4]"
| "decode_sextets [a, b] = [a * 4 + b div 16]"
| "decode_sextets [a] = []"
| "decode_sextets [] = []"

fun those_values :: "char list \<Rightarrow> nat list option" where
  "those_values [] = Some []"
| "those_values (c # cs) =
     (case b64_value c of
        None \<Rightarrow> None
      | Some v \<Rightarrow> map_option ((#) v) (those_values cs))"

definition atob :: "string \<Rightarrow> string option" where
  "atob encoded =
     (let d = strip_padding (filter (\<lambda>c. \<not> is_ascii_whitespace c) encoded)
      in if length d mod 4 = 1 then None
         else map_option (\<lambda>vs. map char_of (decode_sextets vs)) (those_values d))"

text \<open>
  \<^verbatim>\<open>FileReader.readAsDataURL\<close>, as the File API defines it, produces
  \<^verbatim>\<open>data:<type>;base64,<payload>\<close>, the payload being the base64 encoding
  (RFC 4648, with padding) of the bytes; a file with no type is reported as
  \<^verbatim>\<open>application/octet-stream\<close>, as browsers do.
\<close>

fun sextets :: "nat list \<Rightarrow> nat list" where
  "sextets (a # b # c # rest) =
     [a div 4, (a mod 4) * 16 + b div 16, (b mod 16) * 4 + c div 64, c mod 64] @ sextets rest"
| "sextets [a, b] = [a div 4, (a mod 4) * 16 + b div 16, (b mod 16) * 4]"
| "sextets [a] = [a div 4, (a mod 4) * 16]"
| "sextets [] = []"

definition b64_encode :: "byte list \<Rightarrow> string" where
  "b64_encode bs =
     map b64_char (sextets (map unat bs)) @
     replicate ((3 - length bs mod 3) mod 3) (CHR ''='')"

definition data_url :: "jsfile \<Rightarrow> string" where
  "data_url f =
     ''data:'' @ (if file_type f = [] then ''application/octet-stream'' else file_type f) @
     '';base64,'' @ b64_encode (file_bytes f)"

section \<open>Input marshalling: \<^verbatim>\<open>convertToFile\<close>\<close>

text \<open>
  The prefix handling of \<^verbatim>\<open>convertToFile\<close> (lines 21 to 23):
  \<^verbatim>\<open>imageData.includes('base64,') ? imageData.split('base64,')[1] : imageData\<close>.
\<close>

definition base64Data :: "string \<Rightarrow> string" where
  "base64Data imageData =
     (if js_includes imageData ''base64,''
      then second_or_undefined (js_split imageData ''base64,'')
      else imageData)"

text \<open>
  The loop of lines 29 to 31, \<^verbatim>\<open>uint8Array[i] = byteString.charCodeAt(i)\<close>, over
  the zero-filled buffer of line 26.
\<close>

function fill_bytes :: "string \<Rightarrow> nat \<Rightarrow> byte list \<Rightarrow> byte list" where
  "fill_bytes byteString i uint8Array =
     (if i < length byteString
      then fill_bytes byteString (Suc i) (uint8Array[i := of_nat (of_char (byteString ! i))])
      else uint8Array)"
  by pat_completeness auto
termination
  by (relation "measure (\<lambda>(byteString, i, uint8Array). length byteString - i)") auto

declare fill_bytes.simps [simp del]

text \<open>
  What \<^verbatim>\<open>atob\<close> throws on line 25: a DOMException named
  \<^verbatim>\<open>InvalidCharacterError\<close>. Its message is the browser's own; the model fixes
  one text for it.
\<close>

definition InvalidCharacterError :: thrown where
  "InvalidCharacterError =
     ErrorObj ''InvalidCharacterError'' ''The string to be decoded is not correctly encoded.''"

definition convertToFile :: "image_data \<Rightarrow> thrown + jsfile" where
  "convertToFile imageData =
     (case imageData of
        StringData str \<Rightarrow>
          (case atob (base64Data str) of
             None \<Rightarrow> Inl InvalidCharacterError
           | Some byteString \<Rightarrow>
               (let uint8Array = fill_bytes byteString 0 (replicate (length byteString) 0);
                    b = \<lparr>blob_bytes = uint8Array, blob_type = ''image/png''\<rparr>
                in Inr \<lparr>file_bytes = blob_bytes b, file_name = ''input-image.png'',
                        file_type = ''image/png''\<rparr>))
      | BlobData b \<Rightarrow>
          Inr \<lparr>file_bytes = blob_bytes b, file_name = ''input-image.png'',
               file_type = (if blob_type b = [] then ''image/png'' else blob_type b)\<rparr>)"

text \<open>
  Claim C9 describes the prefix handling as "strip everything up to and
  including the first marker and decode the remainder". \<open>claimed_remainder\<close> is that
  description; \<open>marker_segment\<close> is the text between the first marker and the next one
  (or the end of the string).
\<close>

definition claimed_remainder :: "string \<Rightarrow> string" where
  "claimed_remainder s =
     (case indexOf s ''base64,'' of None \<Rightarrow> s | Some i \<Rightarrow> drop (i + 7) s)"

definition marker_segment :: "string \<Rightarrow> string" where
  "marker_segment s =
     (case indexOf s ''base64,'' of
        None \<Rightarrow> s
      | Some i \<Rightarrow>
          (case indexOf (drop (i + 7) s) ''base64,'' of
             None \<Rightarrow> drop (i + 7) s
           | Some j \<Rightarrow> take j (drop (i + 7) s)))"

section \<open>The service: \<^verbatim>\<open>penpal-service\<close>\<close>

text \<open>
  Line 1 imports \<^verbatim>\<open>processImage\<close>, \<^verbatim>\<open>initializeModel\<close> (as \<^verbatim>\<open>initModel\<close>) and
  \<^verbatim>\<open>getModelInfo\<close> from \<^verbatim>\<open>lib/process\<close>, which is not among the sources: the
  service is modelled over any such library, a record of three operations on the
  library's state \<open>'st\<close>, together with the platform's \<^verbatim>\<open>FileReader\<close> (\<open>None\<close> is
  its \<^verbatim>\<open>onerror\<close>). An asynchronous operation takes the state and returns what the
  promise settles to (\<open>Inl\<close>: rejected) and the state it leaves;
  \<^verbatim>\<open>getModelInfo\<close>, which the page calls and destructures synchronously (line
  179), is a read of the state. Calls run one after the other; console output is not
  modelled.
\<close>

datatype js_value = JString string | JBool bool

type_synonym js_object = "(string \<times> js_value) list"

record 'st env =
  processImage :: "jsfile \<Rightarrow> 'st \<Rightarrow> (thrown + jsfile) \<times> 'st"
  initModel :: "string option \<Rightarrow> 'st \<Rightarrow> (thrown + bool) \<times> 'st"
  getModelInfo :: "'st \<Rightarrow> js_object"
  readAsDataURL :: "jsfile \<Rightarrow> string option"

text \<open>The calls into the library are recorded, in order, beside the library's state.\<close>

datatype call = InitModel "string option" | ProcessImage jsfile

record 'st world =
  lib :: 'st
  calls :: "call list"

type_synonym ('st, 'a) action = "'st world \<Rightarrow> (thrown + 'a) \<times> 'st world"

definition returnA :: "'a \<Rightarrow> ('st, 'a) action" where
  "returnA a w = (Inr a, w)"

definition throwA :: "thrown \<Rightarrow> ('st, 'a) action" where
  "throwA e w = (Inl e, w)"

definition awaitA :: "thrown + 'a \<Rightarrow> ('st, 'a) action" where
  "awaitA r w = (r, w)"

definition bindA :: "('st, 'a) action \<Rightarrow> ('a \<Rightarrow> ('st, 'b) action) \<Rightarrow> ('st, 'b) action" where
  "bindA m f w = (case m w of (Inl e, w') \<Rightarrow> (Inl e, w') | (Inr a, w') \<Rightarrow> f a w')"

definition catchA :: "('st, 'a) action \<Rightarrow> (thrown \<Rightarrow> ('st, 'a) action) \<Rightarrow> ('st, 'a) action" where
  "catchA m h w = (case m w of (Inl e, w') \<Rightarrow> h e w' | (Inr a, w') \<Rightarrow> (Inr a, w'))"

definition call_initModel :: "'st env \<Rightarrow> string option \<Rightarrow> ('st, bool) action" where
  "call_initModel env modelId w =
     (case initModel env modelId (lib w) of
        (r, st) \<Rightarrow> (r, \<lparr>lib = st, calls = calls w @ [InitModel modelId]\<rparr>))"

definition call_processImage :: "'st env \<Rightarrow> jsfile \<Rightarrow> ('st, jsfile) action" where
  "call_processImage env inputFile w =
     (case processImage env inputFile (lib w) of
        (r, st) \<Rightarrow> (r, \<lparr>lib = st, calls = calls w @ [ProcessImage inputFile]\<rparr>))"

text \<open>
  \<^verbatim>\<open>new Error(error instanceof Error ? error.message : fallback)\<close>, the body of the
  three \<^verbatim>\<open>catch\<close> clauses.
\<close>

definition rethrow :: "string \<Rightarrow> thrown \<Rightarrow> thrown" where
  "rethrow fallback error =
     ErrorObj ''Error'' (case error of ErrorObj _ m \<Rightarrow> m | NonError \<Rightarrow> fallback)"

text \<open>Lines 44 to 54: \<^verbatim>\<open>reader.onerror = reject\<close> rejects with an event, not an Error.\<close>

definition fileToBase64 :: "'st env \<Rightarrow> jsfile \<Rightarrow> thrown + string" where
  "fileToBase64 env f =
     (case readAsDataURL env f of Some result \<Rightarrow> Inr result | None \<Rightarrow> Inl NonError)"

definition removeBackground :: "'st env \<Rightarrow> image_data \<Rightarrow> ('st, string) action" where
  "removeBackground env imageData =
     catchA
       (bindA (call_initModel env None) (\<lambda>_.
        bindA (awaitA (convertToFile imageData)) (\<lambda>inputFile.
        bindA (call_processImage env inputFile) (\<lambda>processedFile.
        bindA (awaitA (fileToBase64 env processedFile)) (\<lambda>base64Result.
        returnA base64Result)))))
       (\<lambda>error. throwA (rethrow ''Failed to remove background'' error))"

definition removeBackgroundAsBlob :: "'st env \<Rightarrow> image_data \<Rightarrow> ('st, jsfile) action" where
  "removeBackgroundAsBlob env imageData =
     catchA
       (bindA (call_initModel env None) (\<lambda>_.
        bindA (awaitA (convertToFile imageData)) (\<lambda>inputFile.
        bindA (call_processImage env inputFile) (\<lambda>processedFile.
        returnA processedFile))))
       (\<lambda>error. throwA (rethrow ''Failed to remove background'' error))"

definition initializeModel :: "'st env \<Rightarrow> string option \<Rightarrow> ('st, bool) action" where
  "initializeModel env modelId =
     catchA (call_initModel env modelId)
       (\<lambda>error. throwA (rethrow ''Failed to initialize model'' error))"

text \<open>
  The interface \<^verbatim>\<open>PenpalMethods\<close> (lines 7 to 13) gives the four signatures; the
  object \<^verbatim>\<open>penpalMethods\<close> (lines 117 to 122) binds the four names.
\<close>

datatype 'st penpal_method =
    ImageToString "image_data \<Rightarrow> ('st, string) action"
  | ImageToBlob "image_data \<Rightarrow> ('st, jsfile) action"
  | ModelToBoolean "string option \<Rightarrow> ('st, bool) action"
  | ToModelInfo "'st \<Rightarrow> js_object"

definition penpalMethods :: "'st env \<Rightarrow> (string \<times> 'st penpal_method) list" where
  "penpalMethods env =
     [(''removeBackground'', ImageToString (removeBackground env)),
      (''removeBackgroundAsBlob'', ImageToBlob (removeBackgroundAsBlob env)),
      (''initializeModel'', ModelToBoolean (initializeModel env)),
      (''getModelInfo'', ToModelInfo (getModelInfo env))]"

text \<open>
  \<open>penpalMethods\<close> lists the own properties of the object. The object is written as
  an object literal, so it inherits from \<^verbatim>\<open>Object.prototype\<close>: reading a property
  by name gives the own property if there is one and the inherited one otherwise.
  \<^verbatim>\<open>Object.prototype\<close> has the function-valued properties listed below, and the
  accessor \<^verbatim>\<open>__proto__\<close>, whose value is an object and not a function. Penpal
  serves a remote call by reading \<^verbatim>\<open>methods[name]\<close> and calling what it finds
  when that is a function; \<open>resolveMethod\<close> is that reading, \<open>None\<close> when no
  function is found.
\<close>

definition object_prototype_functions :: "string list" where
  "object_prototype_functions =
     [''constructor'', ''__defineGetter__'', ''__defineSetter__'', ''hasOwnProperty'',
      ''__lookupGetter__'', ''__lookupSetter__'', ''isPrototypeOf'', ''propertyIsEnumerable'',
      ''toString'', ''valueOf'', ''toLocaleString'']"

datatype 'st resolved = OwnMethod "'st penpal_method" | InheritedFunction string

definition resolveMethod :: "(string \<times> 'st penpal_method) list \<Rightarrow> string \<Rightarrow> 'st resolved option" where
  "resolveMethod methods name =
     (case map_of methods name of
        Some m \<Rightarrow> Some (OwnMethod m)
      | None \<Rightarrow>
          if name \<in> set object_prototype_functions then Some (InheritedFunction name)
          else None)"

section \<open>The embedded page: \<^verbatim>\<open>App\<close>\<close>

text \<open>
  The effect that sets up the connection (lines 184 to 196 of the page's source, as
  \<^verbatim>\<open>IFRAME_INTEGRATION.md\<close> carries it): when the page runs in a frame, it builds a
  \<^verbatim>\<open>WindowMessenger\<close> with \<^verbatim>\<open>allowedOrigins: ['*']\<close> and connects with
  \<^verbatim>\<open>methods: penpalMethods\<close>. The matching of an origin against the allow-list is
  done by the Penpal library: an entry admits the origin it names, and the entry
  \<^verbatim>\<open>'*'\<close> admits every origin, which is what the page's comment on line 187,
  "Allow any origin", relies on.
\<close>

definition allowedOrigins :: "string list" where
  "allowedOrigins = [''*'']"

definition isAllowedOrigin :: "string list \<Rightarrow> string \<Rightarrow> bool" where
  "isAllowedOrigin allowed origin = list_ex (\<lambda>a. a = origin \<or> a = ''*'') allowed"

definition connect :: "string list \<Rightarrow> 'm \<Rightarrow> string \<Rightarrow> 'm option" where
  "connect allowed methods remoteOrigin =
     (if isAllowedOrigin allowed remoteOrigin then Some methods else None)"

definition setupPenpal ::
  "'st env \<Rightarrow> bool \<Rightarrow> string \<Rightarrow> (string \<times> 'st penpal_method) list option" where
  "setupPenpal env inFrame parentOrigin =
     (if inFrame then connect allowedOrigins (penpalMethods env) parentOrigin else None)"

text \<open>
  The object that \<^verbatim>\<open>getModelInfo\<close> returns, as the sources have it: the interface
  \<^verbatim>\<open>BackgroundRemovalService\<close> of the integration guide declares
  \<^verbatim>\<open>getModelInfo(): Promise<{ currentModelId: string; isWebGPUSupported: boolean; isIOS: boolean }>\<close>
  (lines 62 to 66), and the page reads \<^verbatim>\<open>isIOS\<close> (line 179) and
  \<^verbatim>\<open>isWebGPUSupported\<close> (line 246) from it.
\<close>

definition model_info :: "string \<Rightarrow> bool \<Rightarrow> bool \<Rightarrow> js_object" where
  "model_info modelId webGPU iOS =
     [(''currentModelId'', JString modelId),
      (''isWebGPUSupported'', JBool webGPU),
      (''isIOS'', JBool iOS)]"

text \<open>The state of the page that the model selector touches (lines 166 to 171).\<close>

record ui_state =
  isLoading :: bool
  appError :: "string option"
  isWebGPU :: bool
  isIOS :: "js_value option"
  currentModel :: string
  isModelSwitching :: bool


text \<open>\<^verbatim>\<open>handleModelChange\<close>, lines 205 to 226.\<close>

definition handleModelChange :: "'st env \<Rightarrow> string \<Rightarrow> ui_state \<times> 'st \<Rightarrow> ui_state \<times> 'st" where
  "handleModelChange env newModel = (\<lambda>(u, st).
     let u1 = u\<lparr>isModelSwitching := True, appError := None\<rparr>;
         (outcome, st') = initModel env (Some newModel) st;
         caught =
           (case outcome of
              Inl err \<Rightarrow> Some err
            | Inr initialized \<Rightarrow>
                if \<not> initialized then Some (ErrorObj ''Error'' ''Failed to initialize new model'')
                else None);
         u2 =
           (case caught of
              None \<Rightarrow> u1\<lparr>currentModel := newModel\<rparr>
            | Some (ErrorObj _ msg) \<Rightarrow>
                if js_includes msg ''Falling back''
                then u1\<lparr>currentModel := ''briaai/RMBG-1.4''\<rparr>
                else u1\<lparr>appError := Some msg\<rparr>
            | Some NonError \<Rightarrow> u1\<lparr>appError := Some ''Failed to switch models''\<rparr>)
     in (u2\<lparr>isModelSwitching := False\<rparr>, st'))"

section \<open>The processing library, from its specification\<close>

text \<open>
  \<^verbatim>\<open>lib/process\<close> is not among the sources. This section models its lifecycle
  manager and its request queue from the specification, for the claims that are about
  them and for concrete runs of the service.
\<close>

text \<open>
  Modelled from the spec: the execution backends of the missing \<^verbatim>\<open>lib/process\<close>,
  "GPU-accelerated vs. CPU-fallback".
\<close>

datatype backend = Accelerated | CpuFallback

text \<open>
  Modelled from the spec: LifecycleState of the missing Model Lifecycle Manager, "one of
  Uninitialized, Initializing(modelId), Ready(modelId, backend), Switching(fromId, toId),
  Failed(modelId, cause)".
\<close>

datatype lifecycle =
    Uninitialized
  | Initializing string
  | Ready string backend
  | Switching string string
  | Failed string string

text \<open>
  Modelled from the spec: the state of the missing \<^verbatim>\<open>lib/process\<close>, its
  LifecycleState and the cached result of the Device Capability Probe
  (\<open>accelerated\<close>, \<open>constrainedPlatform\<close>). The black-box runtime is read from the
  state: \<open>load_outcomes\<close> are the results of its coming model loads (\<open>True\<close>: loaded)
  and \<open>inference_outcomes\<close> those of its coming inference runs, both in order.
\<close>

record process_state =
  lifecycle :: lifecycle
  accelerated :: bool
  constrainedPlatform :: bool
  load_outcomes :: "bool list"
  inference_outcomes :: "(thrown + jsfile) list"

text \<open>
  Modelled from the spec: the platform default of the missing Model Registry, the
  non-accelerated model; its identifier is the one the page starts with and resets to
  (lines 170 and 217).
\<close>

definition default_model :: string where
  "default_model = ''briaai/RMBG-1.4''"

text \<open>
  Modelled from the spec: the backend a loaded model of the missing Lifecycle Manager
  runs on, accelerated where the probe found acceleration on an unconstrained platform.
\<close>

definition select_backend :: "process_state \<Rightarrow> backend" where
  "select_backend s = (if accelerated s \<and> \<not> constrainedPlatform s then Accelerated else CpuFallback)"

text \<open>
  Modelled from the spec: the cause the missing Lifecycle Manager reports for an
  "Initialization failure, model/backend failed to load".
\<close>

definition load_failed :: string where
  "load_failed = ''Failed to load model''"

text \<open>
  Modelled from the spec: one load of a model by the black-box runtime behind the
  missing Lifecycle Manager; it succeeds or fails as the state foretells.
\<close>

definition load_model :: "process_state \<Rightarrow> bool \<times> process_state" where
  "load_model s =
     (case load_outcomes s of
        [] \<Rightarrow> (False, s)
      | ok # later \<Rightarrow> (ok, s\<lparr>load_outcomes := later\<rparr>))"

text \<open>
  Modelled from the spec: the "distinguishable error marker" by which the missing
  \<^verbatim>\<open>switchModel\<close> surfaces a fallback: an error whose message holds "Falling
  back", the text \<^verbatim>\<open>handleModelChange\<close> looks for (line 216).
\<close>

definition fallback_error :: "string \<Rightarrow> thrown" where
  "fallback_error fallbackId = ErrorObj ''Error'' (''Falling back to '' @ fallbackId)"

text \<open>
  Modelled from the spec: the body of the missing \<^verbatim>\<open>switchModel\<close>, from the model
  \<open>fromId\<close> with the previously active model \<open>previous\<close>, if one exists. It
  "transitions through Switching; on failure, must fall back to the previously active
  model id if one exists, otherwise to the platform default, and surfaces the fallback
  via a distinguishable error marker. Never leaves the system in Failed if a fallback
  load succeeds."
\<close>

definition switch_from :: "string \<Rightarrow> string option \<Rightarrow> string \<Rightarrow> process_state \<Rightarrow> (thrown + bool) \<times> process_state" where
  "switch_from fromId previous modelId s =
     (case load_model (s\<lparr>lifecycle := Switching fromId modelId\<rparr>) of
        (True, s1) \<Rightarrow> (Inr True, s1\<lparr>lifecycle := Ready modelId (select_backend s1)\<rparr>)
      | (False, s1) \<Rightarrow>
          (let fallbackId = (case previous of Some p \<Rightarrow> p | None \<Rightarrow> default_model)
           in case load_model s1 of
                (True, s2) \<Rightarrow>
                  (Inl (fallback_error fallbackId),
                   s2\<lparr>lifecycle := Ready fallbackId (select_backend s2)\<rparr>)
              | (False, s2) \<Rightarrow>
                  (Inl (ErrorObj ''Error'' load_failed),
                   s2\<lparr>lifecycle := Failed modelId load_failed\<rparr>)))"

text \<open>
  Modelled from the spec: \<^verbatim>\<open>switchModel(modelId)\<close> of the missing Lifecycle Manager,
  "valid only from Ready or Failed": from Ready the active model is the previous one,
  from Failed there is none.
\<close>

definition switchModel :: "string \<Rightarrow> process_state \<Rightarrow> (thrown + bool) \<times> process_state" where
  "switchModel modelId s =
     (case lifecycle s of
        Ready prev b \<Rightarrow> switch_from prev (Some prev) modelId s
      | Failed m cause \<Rightarrow> switch_from m None modelId s
      | _ \<Rightarrow> (Inl (ErrorObj ''Error'' ''switchModel is valid only from Ready or Failed''), s))"

text \<open>
  Modelled from the spec: \<^verbatim>\<open>initialize(modelId?)\<close> of the missing Lifecycle Manager.
  "If modelId is omitted, selects the default model for the current capabilities
  (constrained platforms always get the non-accelerated default regardless of modelId).
  Transitions Uninitialized, Initializing, Ready on success, Initializing to Failed on
  error. If called while already Ready with the same model, returns true immediately."
  Called while another model is Ready, it is a switch to the selected model.
\<close>

definition initialize :: "string option \<Rightarrow> process_state \<Rightarrow> (thrown + bool) \<times> process_state" where
  "initialize modelId s =
     (let target =
            (if constrainedPlatform s then default_model
             else case modelId of None \<Rightarrow> default_model | Some m \<Rightarrow> m)
      in case lifecycle s of
           Ready m b \<Rightarrow> if m = target then (Inr True, s) else switchModel target s
         | _ \<Rightarrow>
             (case load_model (s\<lparr>lifecycle := Initializing target\<rparr>) of
                (True, s1) \<Rightarrow> (Inr True, s1\<lparr>lifecycle := Ready target (select_backend s1)\<rparr>)
              | (False, s1) \<Rightarrow>
                  (Inl (ErrorObj ''Error'' load_failed),
                   s1\<lparr>lifecycle := Failed target load_failed\<rparr>)))"

text \<open>
  Modelled from the spec: \<^verbatim>\<open>ensureReady()\<close> of the missing Lifecycle Manager. "If
  Uninitialized, performs the default initialization; if Initializing, awaits it; if
  Ready, returns immediately; if Failed, attempts one re-initialization with the default
  model before raising."
\<close>

definition ensureReady :: "process_state \<Rightarrow> (thrown + unit) \<times> process_state" where
  "ensureReady s =
     (case lifecycle s of
        Ready m b \<Rightarrow> (Inr (), s)
      | _ \<Rightarrow> (case initialize None s of (Inl e, s1) \<Rightarrow> (Inl e, s1) | (Inr _, s1) \<Rightarrow> (Inr (), s1)))"

text \<open>
  Modelled from the spec: the \<^verbatim>\<open>currentModelId\<close> that the missing \<^verbatim>\<open>status()\<close>
  reports: the model the lifecycle names, the default before any initialization, the
  model switched from during a switch.
\<close>

definition current_model_id :: "process_state \<Rightarrow> string" where
  "current_model_id s =
     (case lifecycle s of
        Uninitialized \<Rightarrow> default_model
      | Initializing m \<Rightarrow> m
      | Ready m b \<Rightarrow> m
      | Switching fromId toId \<Rightarrow> fromId
      | Failed m cause \<Rightarrow> m)"

text \<open>
  Modelled from the spec: \<^verbatim>\<open>status()\<close> of the missing Lifecycle Manager, exported
  as \<^verbatim>\<open>getModelInfo\<close>: "status() -> { currentModelId, accelerated,
  constrainedPlatform }. Read-only, never blocks, never fails", a function of the state
  alone that returns at once the current model identifier, the acceleration flag and the
  constrained-platform flag. The spec calls the two flags \<open>accelerated\<close> and
  \<open>constrainedPlatform\<close>; the object is built in the shape the sources give it
  (\<open>model_info\<close>), since the page in the sources reads it under those names.
\<close>

definition status :: "process_state \<Rightarrow> js_object" where
  "status s = model_info (current_model_id s) (accelerated s) (constrainedPlatform s)"


text \<open>
  Modelled from the spec: one run of the black-box inference runtime behind the missing
  \<^verbatim>\<open>processImage\<close>: it "must accept an image buffer plus a model identifier and
  return a mask/processed-image buffer, or throw". It needs a Ready model, and its
  outcome is read from the state.
\<close>

definition run_inference :: "jsfile \<Rightarrow> process_state \<Rightarrow> (thrown + jsfile) \<times> process_state" where
  "run_inference f s =
     (case lifecycle s of
        Ready m b \<Rightarrow>
          (case inference_outcomes s of
             [] \<Rightarrow> (Inl (ErrorObj ''Error'' ''Inference failed''), s)
           | r # later \<Rightarrow> (r, s\<lparr>inference_outcomes := later\<rparr>))
      | _ \<Rightarrow> (Inl (ErrorObj ''Error'' ''Model not initialized''), s))"

text \<open>
  Modelled from the spec: the three exports of the missing \<^verbatim>\<open>lib/process\<close> that
  the service imports, with the platform's reader, which always succeeds on a file held
  in memory.
\<close>

definition process_env :: "process_state env" where
  "process_env =
     \<lparr>processImage = run_inference, initModel = initialize, getModelInfo = status,
      readAsDataURL = (\<lambda>f. Some (data_url f))\<rparr>"

subsection \<open>The Inference Request Queue\<close>

text \<open>
  Modelled from the spec: the result placeholder of an InferenceRequest of the missing
  queue, "pending/fulfilled/rejected".
\<close>

datatype placeholder = Pending | Fulfilled jsfile | Rejected thrown

text \<open>
  Modelled from the spec: InferenceRequest of the missing queue, an "input image
  payload" and "a unique sequence number assigned at enqueue time"; its placeholder is
  kept in the queue's \<open>results\<close>.
\<close>

record inference_request =
  payload :: jsfile
  seq :: nat

text \<open>
  Modelled from the spec: QueueState of the missing queue, the "ordered sequence of
  pending InferenceRequest (FIFO), plus a flag indicating whether a request is currently
  executing", with the next sequence number, the placeholders, and the Lifecycle Manager
  the worker calls. \<open>in_flight\<close> is the instrumentation of the runtime call that the
  spec's test asks for: the invocations that have started and not yet returned.
\<close>

record queue_state =
  pending :: "inference_request list"
  executing :: bool
  next_seq :: nat
  in_flight :: "inference_request list"
  results :: "(nat \<times> placeholder) list"
  manager :: process_state

text \<open>
  Modelled from the spec: what can happen to the missing queue, in any order: a
  \<^verbatim>\<open>submit\<close> (which "may be called while the worker is active"), a turn of the
  worker loop, and the return of the black-box runtime.
\<close>

datatype queue_event = Submit jsfile | WorkerTurn | RuntimeReturns "thrown + jsfile"

text \<open>
  Modelled from the spec: \<^verbatim>\<open>submit\<close> of the missing queue. It "assigns the request
  the next monotonically increasing sequence number and appends it to the pending
  sequence".
\<close>

definition submit :: "jsfile \<Rightarrow> queue_state \<Rightarrow> queue_state" where
  "submit f q =
     q\<lparr>pending := pending q @ [\<lparr>payload = f, seq = next_seq q\<rparr>],
       results := results q @ [(next_seq q, Pending)],
       next_seq := Suc (next_seq q)\<rparr>"

text \<open>
  Modelled from the spec: settling the placeholder of the request numbered \<open>n\<close> in the
  missing queue.
\<close>

definition settle :: "nat \<Rightarrow> placeholder \<Rightarrow> (nat \<times> placeholder) list \<Rightarrow> (nat \<times> placeholder) list" where
  "settle n p rs = map (\<lambda>(k, old). if k = n then (k, p) else (k, old)) rs"

text \<open>
  Modelled from the spec: one turn of the worker loop of the missing queue. "The Queue
  never starts a second inference while the flag is true"; otherwise it takes the first
  pending request, and "before running each request, the worker calls ensureReady(); if
  that fails, the request is rejected with an initialization-failure error and the
  worker proceeds to the next pending request"; else it sets the flag and invokes the
  runtime.
\<close>

definition worker_turn :: "queue_state \<Rightarrow> queue_state" where
  "worker_turn q =
     (if executing q then q
      else case pending q of
             [] \<Rightarrow> q
           | r # later \<Rightarrow>
               (case ensureReady (manager q) of
                  (Inl e, m) \<Rightarrow>
                    q\<lparr>pending := later, manager := m,
                      results := settle (seq r) (Rejected e) (results q)\<rparr>
                | (Inr _, m) \<Rightarrow>
                    q\<lparr>pending := later, manager := m, executing := True,
                      in_flight := in_flight q @ [r]\<rparr>))"

text \<open>
  Modelled from the spec: the return of the runtime to the missing queue. "On success the
  request's promise resolves with the produced result payload; on runtime error the
  promise rejects"; the invocation is no longer in flight and the flag is cleared.
\<close>

definition runtime_returns :: "thrown + jsfile \<Rightarrow> queue_state \<Rightarrow> queue_state" where
  "runtime_returns outcome q =
     (case in_flight q of
        [] \<Rightarrow> q
      | r # others \<Rightarrow>
          q\<lparr>in_flight := others, executing := False,
            results :=
              settle (seq r)
                (case outcome of Inl e \<Rightarrow> Rejected e | Inr output \<Rightarrow> Fulfilled output)
                (results q)\<rparr>)"

text \<open>Modelled from the spec: one event of the missing queue.\<close>

fun queue_step :: "queue_state \<Rightarrow> queue_event \<Rightarrow> queue_state" where
  "queue_step q (Submit f) = submit f q"
| "queue_step q WorkerTurn = worker_turn q"
| "queue_step q (RuntimeReturns outcome) = runtime_returns outcome q"

text \<open>
  Modelled from the spec: the missing queue as the process starts, nothing pending and
  nothing executing.
\<close>

definition initial_queue :: "process_state \<Rightarrow> queue_state" where
  "initial_queue m =
     \<lparr>pending = [], executing = False, next_seq = 0, in_flight = [], results = [],
      manager = m\<rparr>"

text \<open>Modelled from the spec: the missing queue after a sequence of events.\<close>

definition run_queue :: "queue_state \<Rightarrow> queue_event list \<Rightarrow> queue_state" where
  "run_queue q events = foldl queue_step q events"

text \<open>
  The invariant of the queue: the number of invocations in flight is one when the flag
  is set and none otherwise.
\<close>

definition queue_inv :: "queue_state \<Rightarrow> bool" where
  "queue_inv q = (length (in_flight q) = (if executing q then 1 else 0))"

section \<open>Concrete runs\<close>

text \<open>
  Two states of the modelled library, used to run the service on concrete inputs: in
  \<open>world0\<close> the first model load succeeds, in \<open>world_retry\<close> the first load fails and
  the second succeeds; in both the first inference returns a three-byte PNG.
\<close>

definition world0 :: "process_state world" where
  "world0 =
     \<lparr>lib = \<lparr>lifecycle = Uninitialized, accelerated = False, constrainedPlatform = False,
             load_outcomes = [True],
             inference_outcomes =
               [Inr \<lparr>file_bytes = [1, 2, 3], file_name = ''out.png'', file_type = ''image/png''\<rparr>]\<rparr>,
      calls = []\<rparr>"

definition world_retry :: "process_state world" where
  "world_retry =
     \<lparr>lib = \<lparr>lifecycle = Uninitialized, accelerated = False, constrainedPlatform = False,
             load_outcomes = [False, True],
             inference_outcomes =
               [Inr \<lparr>file_bytes = [1, 2, 3], file_name = ''out.png'', file_type = ''image/png''\<rparr>]\<rparr>,
      calls = []\<rparr>"

text \<open>
  For the model switch: \<open>world_switch\<close> has the default model Ready on an accelerated
  platform, \<open>world_failed\<close> has no active model after a failed load; in both the next
  load fails and the one after succeeds. \<open>page0\<close> is the page as it starts.
\<close>

definition world_switch :: "process_state world" where
  "world_switch =
     \<lparr>lib = \<lparr>lifecycle = Ready ''briaai/RMBG-1.4'' Accelerated, accelerated = True,
             constrainedPlatform = False, load_outcomes = [False, True],
             inference_outcomes = []\<rparr>,
      calls = []\<rparr>"

definition world_failed :: "process_state world" where
  "world_failed =
     \<lparr>lib = \<lparr>lifecycle = Failed ''Xenova/modnet'' ''Failed to load model'', accelerated = True,
             constrainedPlatform = False, load_outcomes = [False, True],
             inference_outcomes = []\<rparr>,
      calls = []\<rparr>"

definition page0 :: ui_state where
  "page0 =
     \<lparr>isLoading = True, appError = None, isWebGPU = False, isIOS = Some (JBool False),
      currentModel = ''briaai/RMBG-1.4'', isModelSwitching = False\<rparr>"





section \<open>Facts about the platform primitives\<close>

lemma fill_bytes_from:
  "i \<le> length s \<Longrightarrow> length a = length s \<Longrightarrow>
   fill_bytes s i a = take i a @ map (\<lambda>c. of_nat (of_char c)) (drop i s)"
proof (induction s i a rule: fill_bytes.induct)
  case (1 s i a)
  show ?case
  proof (cases "i < length s")
    case True
    have "fill_bytes s i a = fill_bytes s (Suc i) (a[i := of_nat (of_char (s ! i))])"
      using True by (subst fill_bytes.simps) simp
    also have "\<dots> = take (Suc i) (a[i := of_nat (of_char (s ! i))]) @
                     map (\<lambda>c. of_nat (of_char c)) (drop (Suc i) s)"
      using True "1.prems" by (intro "1.IH") simp_all
    also have "take (Suc i) (a[i := of_nat (of_char (s ! i))]) =
               take i a @ [of_nat (of_char (s ! i))]"
      using True "1.prems" by (simp add: take_Suc_conv_app_nth)
    finally have "fill_bytes s i a =
        take i a @ map (\<lambda>c. of_nat (of_char c)) (s ! i # drop (Suc i) s)"
      by simp
    then show ?thesis
      using True by (simp add: Cons_nth_drop_Suc)
  next
    case False
    with "1.prems" have "i = length s" by simp
    then show ?thesis using "1.prems" by (subst fill_bytes.simps) simp
  qed
qed

lemma fill_bytes_all:
  "fill_bytes s 0 (replicate (length s) 0) = map (\<lambda>c. of_nat (of_char c)) s"
  by (simp add: fill_bytes_from)


lemma index_of_Some: "index_of x xs = Some n \<Longrightarrow> n < length xs \<and> xs ! n = x"
  by (induction xs arbitrary: n) (auto split: if_splits)

lemma index_of_None: "index_of x xs = None \<longleftrightarrow> x \<notin> set xs"
  by (induction xs) auto



















lemma suffix_pad2: "suffix ''=='' (xs @ ''=='')"
  by (simp add: suffix_def)



lemma indexOf_first:
  "indexOf s sep = Some i \<Longrightarrow> prefix sep (drop i s) \<and> (\<forall>j<i. \<not> prefix sep (drop j s))"
proof (induction s arbitrary: i)
  case Nil
  then show ?case by (simp split: if_splits)
next
  case (Cons c cs)
  show ?case
  proof (cases "prefix sep (c # cs)")
    case True
    with Cons.prems show ?thesis by simp
  next
    case False
    with Cons.prems obtain k where k: "indexOf cs sep = Some k" "i = Suc k" by auto
    from Cons.IH [OF k(1)] have IH: "prefix sep (drop k cs)" "\<forall>j<k. \<not> prefix sep (drop j cs)"
      by simp_all
    have "\<not> prefix sep (drop j (c # cs))" if "j < i" for j
    proof (cases j)
      case 0 with False show ?thesis by simp
    next
      case (Suc m)
      with that k(2) have "m < k" by simp
      with IH(2) Suc show ?thesis by simp
    qed
    with IH(1) k(2) show ?thesis by simp
  qed
qed

lemma indexOf_None_iff: "sep \<noteq> [] \<Longrightarrow> indexOf s sep = None \<longleftrightarrow> (\<forall>j. \<not> prefix sep (drop j s))"
proof (induction s)
  case Nil then show ?case by simp
next
  case (Cons c cs)
  show ?case
  proof (cases "prefix sep (c # cs)")
    case True
    then have "\<exists>j. prefix sep (drop j (c # cs))" by (intro exI [of _ 0]) simp
    with True show ?thesis by simp
  next
    case False
    have "(\<forall>j. \<not> prefix sep (drop j (c # cs))) \<longleftrightarrow> (\<forall>j. \<not> prefix sep (drop j cs))"
    proof
      assume a: "\<forall>j. \<not> prefix sep (drop j (c # cs))"
      show "\<forall>j. \<not> prefix sep (drop j cs)"
      proof
        fix j from a have "\<not> prefix sep (drop (Suc j) (c # cs))" by blast
        then show "\<not> prefix sep (drop j cs)" by simp
      qed
    next
      assume a: "\<forall>j. \<not> prefix sep (drop j cs)"
      show "\<forall>j. \<not> prefix sep (drop j (c # cs))"
      proof
        fix j show "\<not> prefix sep (drop j (c # cs))"
          using a False by (cases j) simp_all
      qed
    qed
    with False Cons show ?thesis by simp
  qed
qed





lemma js_split_second:
  assumes "sep \<noteq> []" "indexOf s sep = Some i"
  shows "second_or_undefined (js_split s sep) =
         (case indexOf (drop (i + length sep) s) sep of
            None \<Rightarrow> drop (i + length sep) s
          | Some j \<Rightarrow> take j (drop (i + length sep) s))"
proof -
  let ?rest = "drop (i + length sep) s"
  have 1: "js_split s sep = take i s # js_split ?rest sep"
    by (subst js_split.simps) (simp add: assms)
  have 2: "js_split ?rest sep =
      (case indexOf ?rest sep of None \<Rightarrow> [?rest]
       | Some j \<Rightarrow> take j ?rest # js_split (drop (j + length sep) ?rest) sep)"
    by (subst js_split.simps) (simp add: assms(1))
  show ?thesis
    unfolding 1 by (subst 2) (simp add: second_or_undefined_def split: option.split)
qed

lemma base64Data_segment: "base64Data s = marker_segment s"
proof (cases "indexOf s ''base64,''")
  case None
  then show ?thesis by (simp add: base64Data_def marker_segment_def js_includes_def)
next
  case (Some i)
  have len: "length ''base64,'' = 7" by simp
  have "second_or_undefined (js_split s ''base64,'') =
         (case indexOf (drop (i + 7) s) ''base64,'' of
            None \<Rightarrow> drop (i + 7) s
          | Some j \<Rightarrow> take j (drop (i + 7) s))"
    using js_split_second [OF _ Some] unfolding len by simp
  then show ?thesis
    unfolding base64Data_def marker_segment_def js_includes_def Some by simp
qed







lemma marker_segment_single:
  "indexOf (claimed_remainder s) ''base64,'' = None \<Longrightarrow> marker_segment s = claimed_remainder s"
  by (cases "indexOf s ''base64,''") (simp_all add: marker_segment_def claimed_remainder_def)

section \<open>The service, step by step\<close>

lemma removeBackgroundAsBlob_unfold:
  "removeBackgroundAsBlob env x w =
     (case initModel env None (lib w) of
        (Inl e, st) \<Rightarrow>
          (Inl (rethrow ''Failed to remove background'' e),
           \<lparr>lib = st, calls = calls w @ [InitModel None]\<rparr>)
      | (Inr ready, st) \<Rightarrow>
          (case convertToFile x of
             Inl e \<Rightarrow>
               (Inl (rethrow ''Failed to remove background'' e),
                \<lparr>lib = st, calls = calls w @ [InitModel None]\<rparr>)
           | Inr inputFile \<Rightarrow>
               (case processImage env inputFile st of
                  (Inl e, st2) \<Rightarrow>
                    (Inl (rethrow ''Failed to remove background'' e),
                     \<lparr>lib = st2, calls = calls w @ [InitModel None, ProcessImage inputFile]\<rparr>)
                | (Inr processedFile, st2) \<Rightarrow>
                    (Inr processedFile,
                     \<lparr>lib = st2, calls = calls w @ [InitModel None, ProcessImage inputFile]\<rparr>))))"
  by (simp add: removeBackgroundAsBlob_def catchA_def bindA_def awaitA_def returnA_def throwA_def
      call_initModel_def call_processImage_def split: prod.split sum.split)

lemma removeBackground_unfold:
  "removeBackground env x w =
     (case initModel env None (lib w) of
        (Inl e, st) \<Rightarrow>
          (Inl (rethrow ''Failed to remove background'' e),
           \<lparr>lib = st, calls = calls w @ [InitModel None]\<rparr>)
      | (Inr ready, st) \<Rightarrow>
          (case convertToFile x of
             Inl e \<Rightarrow>
               (Inl (rethrow ''Failed to remove background'' e),
                \<lparr>lib = st, calls = calls w @ [InitModel None]\<rparr>)
           | Inr inputFile \<Rightarrow>
               (case processImage env inputFile st of
                  (Inl e, st2) \<Rightarrow>
                    (Inl (rethrow ''Failed to remove background'' e),
                     \<lparr>lib = st2, calls = calls w @ [InitModel None, ProcessImage inputFile]\<rparr>)
                | (Inr processedFile, st2) \<Rightarrow>
                    (case readAsDataURL env processedFile of
                       None \<Rightarrow>
                         (Inl (ErrorObj ''Error'' ''Failed to remove background''),
                          \<lparr>lib = st2, calls = calls w @ [InitModel None, ProcessImage inputFile]\<rparr>)
                     | Some base64Result \<Rightarrow>
                         (Inr base64Result,
                          \<lparr>lib = st2, calls = calls w @ [InitModel None, ProcessImage inputFile]\<rparr>)))))"
  by (simp add: removeBackground_def catchA_def bindA_def awaitA_def returnA_def throwA_def
      call_initModel_def call_processImage_def fileToBase64_def rethrow_def
      split: prod.split sum.split option.split)

lemma initializeModel_unfold:
  "initializeModel env modelId w =
     (case initModel env modelId (lib w) of
        (Inl e, st) \<Rightarrow>
          (Inl (rethrow ''Failed to initialize model'' e),
           \<lparr>lib = st, calls = calls w @ [InitModel modelId]\<rparr>)
      | (Inr ready, st) \<Rightarrow> (Inr ready, \<lparr>lib = st, calls = calls w @ [InitModel modelId]\<rparr>))"
  by (simp add: initializeModel_def catchA_def throwA_def call_initModel_def
      split: prod.split sum.split)

text \<open>
  Claim C1, as amended. The embedded page sets up its connection with the fixed
  allow-list \<^verbatim>\<open>['*']\<close>, which is not supplied by a caller. An origin is admitted by
  an allow-list that holds it or holds the wildcard \<^verbatim>\<open>'*'\<close>; so whenever the page
  runs inside a frame, the remote context receives the method set whatever its origin
  is, and no connection is set up when the page is not framed.
\<close>

theorem setupPenpal_admits_every_origin:
  "allowedOrigins = [''*''] \<and>
   isAllowedOrigin allowed origin = (origin \<in> set allowed \<or> ''*'' \<in> set allowed) \<and>
   setupPenpal env True origin = Some (penpalMethods env) \<and>
   setupPenpal env False origin = None"
proof -
  have "isAllowedOrigin allowed origin = (origin \<in> set allowed \<or> ''*'' \<in> set allowed)"
    unfolding isAllowedOrigin_def list_ex_iff by blast
  then show ?thesis
    by (simp add: setupPenpal_def connect_def isAllowedOrigin_def allowedOrigins_def)
qed

text \<open>
  The claim as stated fails: an origin that is not in the page's allow-list connects and
  receives the four methods.
\<close>

theorem unlisted_origin_receives_methods:
  "''https://evil.example'' \<notin> set allowedOrigins \<and>
   map_option (map fst) (setupPenpal process_env True ''https://evil.example'') =
     Some [''removeBackground'', ''removeBackgroundAsBlob'', ''initializeModel'', ''getModelInfo'']"
  by (simp add: setupPenpal_def connect_def isAllowedOrigin_def allowedOrigins_def
      penpalMethods_def)

text \<open>
  Claim C2, as amended. The object handed to Penpal has exactly four own properties,
  \<^verbatim>\<open>removeBackground\<close> (resolving to a string), \<^verbatim>\<open>removeBackgroundAsBlob\<close>
  (resolving to binary data), \<^verbatim>\<open>initializeModel\<close> and \<^verbatim>\<open>getModelInfo\<close>, each
  once and bound to these four functions, and it is this object that the page passes as
  the connection's methods. A call by name reaches these four and, besides them, the
  functions the object inherits from \<^verbatim>\<open>Object.prototype\<close>; no other name resolves
  to a function.
\<close>

theorem penpalMethods_own_and_inherited:
  "map fst (penpalMethods env) =
     [''removeBackground'', ''removeBackgroundAsBlob'', ''initializeModel'', ''getModelInfo''] \<and>
   distinct (map fst (penpalMethods env)) \<and>
   resolveMethod (penpalMethods env) ''removeBackground'' =
     Some (OwnMethod (ImageToString (removeBackground env))) \<and>
   resolveMethod (penpalMethods env) ''removeBackgroundAsBlob'' =
     Some (OwnMethod (ImageToBlob (removeBackgroundAsBlob env))) \<and>
   resolveMethod (penpalMethods env) ''initializeModel'' =
     Some (OwnMethod (ModelToBoolean (initializeModel env))) \<and>
   resolveMethod (penpalMethods env) ''getModelInfo'' =
     Some (OwnMethod (ToModelInfo (getModelInfo env))) \<and>
   (resolveMethod (penpalMethods env) name \<noteq> None) =
     (name \<in> set (map fst (penpalMethods env)) \<or> name \<in> set object_prototype_functions) \<and>
   setupPenpal env True origin = Some (penpalMethods env)"
proof -
  have keys: "map fst (penpalMethods env) =
     [''removeBackground'', ''removeBackgroundAsBlob'', ''initializeModel'', ''getModelInfo'']"
    by (simp add: penpalMethods_def)
  have own: "(map_of (penpalMethods env) name = None) = (name \<notin> set (map fst (penpalMethods env)))"
    by (simp add: map_of_eq_None_iff)
  have reach: "(resolveMethod (penpalMethods env) name \<noteq> None) =
     (name \<in> set (map fst (penpalMethods env)) \<or> name \<in> set object_prototype_functions)"
  proof (cases "map_of (penpalMethods env) name")
    case None
    with own show ?thesis by (simp add: resolveMethod_def)
  next
    case (Some m)
    with own show ?thesis by (simp add: resolveMethod_def)
  qed
  have c: "setupPenpal env True origin = Some (penpalMethods env)"
    by (simp add: setupPenpal_def connect_def isAllowedOrigin_def allowedOrigins_def)
  have bound:
    "resolveMethod (penpalMethods env) ''removeBackground'' =
       Some (OwnMethod (ImageToString (removeBackground env)))"
    "resolveMethod (penpalMethods env) ''removeBackgroundAsBlob'' =
       Some (OwnMethod (ImageToBlob (removeBackgroundAsBlob env)))"
    "resolveMethod (penpalMethods env) ''initializeModel'' =
       Some (OwnMethod (ModelToBoolean (initializeModel env)))"
    "resolveMethod (penpalMethods env) ''getModelInfo'' =
       Some (OwnMethod (ToModelInfo (getModelInfo env)))"
    by (simp_all add: resolveMethod_def penpalMethods_def)
  have d: "distinct (map fst (penpalMethods env))"
    unfolding keys by simp
  from keys d bound reach c show ?thesis by (intro conjI)
qed

text \<open>
  The claim as stated fails on "nothing else": \<^verbatim>\<open>toString\<close> is not one of the four
  own properties, and a call of that name still finds a function.
\<close>

theorem inherited_toString_is_callable:
  "''toString'' \<notin> set (map fst (penpalMethods process_env)) \<and>
   resolveMethod (penpalMethods process_env) ''toString'' = Some (InheritedFunction ''toString'') \<and>
   resolveMethod (penpalMethods process_env) ''hasOwnProperty'' =
     Some (InheritedFunction ''hasOwnProperty'') \<and>
   resolveMethod (penpalMethods process_env) ''eval'' = None"
  by (simp add: resolveMethod_def penpalMethods_def object_prototype_functions_def)




text \<open>
  Claim C4, as amended. Take an encoded-string payload whose base64 text, as the service
  extracts it, is refused by \<^verbatim>\<open>atob\<close>: that text is what lies between the first
  \<^verbatim>\<open>base64,\<close> marker and the next one or the end of the string, and the whole
  string when there is no marker; every payload with at most one marker whose remainder
  is not valid base64 is of this kind. For every such payload passed to
  \<^verbatim>\<open>removeBackground\<close> or \<^verbatim>\<open>removeBackgroundAsBlob\<close>, \<^verbatim>\<open>processImage\<close> is
  never invoked. The model is initialized first (line 64 and line 84 come before the
  decoding), so the library's state is what \<^verbatim>\<open>initModel()\<close> leaves; the call
  rejects with the decode error when that initialization succeeds, and with the
  initialization's error when it fails. A payload with a second marker is judged on the
  text between the two markers alone.
\<close>

theorem malformed_payload_never_reaches_processImage:
  "(atob (marker_segment s) = None \<or>
    (indexOf (claimed_remainder s) ''base64,'' = None \<and> atob (claimed_remainder s) = None)) \<longrightarrow>
   removeBackground env (StringData s) w =
     (case initModel env None (lib w) of
        (Inl e, st) \<Rightarrow>
          (Inl (rethrow ''Failed to remove background'' e),
           \<lparr>lib = st, calls = calls w @ [InitModel None]\<rparr>)
      | (Inr ready, st) \<Rightarrow>
          (Inl (ErrorObj ''Error'' (error_message InvalidCharacterError)),
           \<lparr>lib = st, calls = calls w @ [InitModel None]\<rparr>)) \<and>
   removeBackgroundAsBlob env (StringData s) w =
     (case initModel env None (lib w) of
        (Inl e, st) \<Rightarrow>
          (Inl (rethrow ''Failed to remove background'' e),
           \<lparr>lib = st, calls = calls w @ [InitModel None]\<rparr>)
      | (Inr ready, st) \<Rightarrow>
          (Inl (ErrorObj ''Error'' (error_message InvalidCharacterError)),
           \<lparr>lib = st, calls = calls w @ [InitModel None]\<rparr>))"
proof
  assume "atob (marker_segment s) = None \<or>
    (indexOf (claimed_remainder s) ''base64,'' = None \<and> atob (claimed_remainder s) = None)"
  then have "atob (marker_segment s) = None"
  proof
    assume "atob (marker_segment s) = None"
    then show ?thesis .
  next
    assume single: "indexOf (claimed_remainder s) ''base64,'' = None \<and> atob (claimed_remainder s) = None"
    then have "marker_segment s = claimed_remainder s"
      by (simp add: marker_segment_single)
    with single show ?thesis by simp
  qed
  then have bad: "convertToFile (StringData s) = Inl InvalidCharacterError"
    by (simp add: convertToFile_def base64Data_segment)
  have msg: "rethrow ''Failed to remove background'' InvalidCharacterError =
      ErrorObj ''Error'' (error_message InvalidCharacterError)"
    by (simp add: rethrow_def InvalidCharacterError_def)
  show "removeBackground env (StringData s) w =
     (case initModel env None (lib w) of
        (Inl e, st) \<Rightarrow>
          (Inl (rethrow ''Failed to remove background'' e),
           \<lparr>lib = st, calls = calls w @ [InitModel None]\<rparr>)
      | (Inr ready, st) \<Rightarrow>
          (Inl (ErrorObj ''Error'' (error_message InvalidCharacterError)),
           \<lparr>lib = st, calls = calls w @ [InitModel None]\<rparr>)) \<and>
   removeBackgroundAsBlob env (StringData s) w =
     (case initModel env None (lib w) of
        (Inl e, st) \<Rightarrow>
          (Inl (rethrow ''Failed to remove background'' e),
           \<lparr>lib = st, calls = calls w @ [InitModel None]\<rparr>)
      | (Inr ready, st) \<Rightarrow>
          (Inl (ErrorObj ''Error'' (error_message InvalidCharacterError)),
           \<lparr>lib = st, calls = calls w @ [InitModel None]\<rparr>))"
    unfolding removeBackground_unfold removeBackgroundAsBlob_unfold bad
    by (simp add: msg split: prod.split sum.split)
qed

theorem malformed_payload_never_reaches_processImage_witness:
  "atob (marker_segment ''%%%'') = None \<and>
   indexOf (claimed_remainder ''%%%'') ''base64,'' = None \<and>
   atob (claimed_remainder ''%%%'') = None \<and>
   removeBackground process_env (StringData ''%%%'') world0 =
     (Inl (ErrorObj ''Error'' ''The string to be decoded is not correctly encoded.''),
      \<lparr>lib = \<lparr>lifecycle = Ready ''briaai/RMBG-1.4'' CpuFallback, accelerated = False,
               constrainedPlatform = False, load_outcomes = [],
               inference_outcomes =
                 [Inr \<lparr>file_bytes = [1, 2, 3], file_name = ''out.png'',
                        file_type = ''image/png''\<rparr>]\<rparr>,
       calls = [InitModel None]\<rparr>)"
proof -
  have bad: "atob (marker_segment ''%%%'') = None" by code_simp
  have one: "indexOf (claimed_remainder ''%%%'') ''base64,'' = None" by code_simp
  have rem: "atob (claimed_remainder ''%%%'') = None" by code_simp
  have init: "initModel process_env None (lib world0) =
     (Inr True,
      \<lparr>lifecycle = Ready ''briaai/RMBG-1.4'' CpuFallback, accelerated = False,
       constrainedPlatform = False, load_outcomes = [],
       inference_outcomes =
         [Inr \<lparr>file_bytes = [1, 2, 3], file_name = ''out.png'', file_type = ''image/png''\<rparr>]\<rparr>)"
    by code_simp
  have "calls world0 = []" by (simp add: world0_def)
  from malformed_payload_never_reaches_processImage [of "''%%%''" process_env world0] bad
  have "removeBackground process_env (StringData ''%%%'') world0 =
     (case initModel process_env None (lib world0) of
        (Inl e, st) \<Rightarrow>
          (Inl (rethrow ''Failed to remove background'' e),
           \<lparr>lib = st, calls = calls world0 @ [InitModel None]\<rparr>)
      | (Inr ready, st) \<Rightarrow>
          (Inl (ErrorObj ''Error'' (error_message InvalidCharacterError)),
           \<lparr>lib = st, calls = calls world0 @ [InitModel None]\<rparr>))"
    by blast
  then have "removeBackground process_env (StringData ''%%%'') world0 =
     (Inl (ErrorObj ''Error'' ''The string to be decoded is not correctly encoded.''),
      \<lparr>lib = \<lparr>lifecycle = Ready ''briaai/RMBG-1.4'' CpuFallback, accelerated = False,
               constrainedPlatform = False, load_outcomes = [],
               inference_outcomes =
                 [Inr \<lparr>file_bytes = [1, 2, 3], file_name = ''out.png'',
                        file_type = ''image/png''\<rparr>]\<rparr>,
       calls = [InitModel None]\<rparr>)"
    unfolding init using \<open>calls world0 = []\<close> by (simp add: InvalidCharacterError_def)
  with bad one rem show ?thesis by (intro conjI)
qed

text \<open>
  The claim as stated fails in three ways. The malformed payload \<^verbatim>\<open>%%%\<close> takes the
  lifecycle from Uninitialized to Ready; where the model's load fails, the rejection
  carries the load's error, not a decode error; and a payload whose remainder behind the
  first marker is not base64 because of a second marker is not rejected at all:
  \<^verbatim>\<open>processImage\<close> is called on the bytes between the two markers.
\<close>

theorem malformed_payload_initializes_model:
  "atob (base64Data ''%%%'') = None \<and>
   lifecycle (lib world0) = Uninitialized \<and>
   lifecycle (lib (snd (removeBackground process_env (StringData ''%%%'') world0))) =
     Ready ''briaai/RMBG-1.4'' CpuFallback \<and>
   fst (removeBackground process_env (StringData ''%%%'') world_retry) =
     Inl (ErrorObj ''Error'' ''Failed to load model'') \<and>
   atob (claimed_remainder ''data:image/png;base64,QUJDbase64,%%%'') = None \<and>
   calls (snd (removeBackground process_env
       (StringData ''data:image/png;base64,QUJDbase64,%%%'') world0)) =
     [InitModel None,
      ProcessImage \<lparr>file_bytes = [65, 66, 67], file_name = ''input-image.png'',
                     file_type = ''image/png''\<rparr>]"
  by code_simp

text \<open>
  Claim C5. Every request submitted through \<^verbatim>\<open>removeBackground\<close> or
  \<^verbatim>\<open>removeBackgroundAsBlob\<close> calls and awaits \<^verbatim>\<open>initModel()\<close> first: the calls
  it makes are that one, followed by at most one \<^verbatim>\<open>processImage\<close>. If
  \<^verbatim>\<open>initModel()\<close> rejects, the request is rejected with an error carrying the
  initialization's message and \<^verbatim>\<open>processImage\<close> is not called; and a later request
  is not stalled: it initializes again, from the state the failure left, and where that
  succeeds it is processed as usual.
\<close>

theorem initModel_precedes_processImage:
  "(\<exists>tail. calls (snd (removeBackground env x w)) = calls w @ InitModel None # tail \<and>
      (tail = [] \<or> (\<exists>inputFile. tail = [ProcessImage inputFile]))) \<and>
   (\<exists>tail. calls (snd (removeBackgroundAsBlob env x w)) = calls w @ InitModel None # tail \<and>
      (tail = [] \<or> (\<exists>inputFile. tail = [ProcessImage inputFile]))) \<and>
   (initModel env None (lib w) = (Inl e, st) \<longrightarrow>
      removeBackground env x w =
        (Inl (rethrow ''Failed to remove background'' e),
         \<lparr>lib = st, calls = calls w @ [InitModel None]\<rparr>) \<and>
      removeBackgroundAsBlob env x w =
        (Inl (rethrow ''Failed to remove background'' e),
         \<lparr>lib = st, calls = calls w @ [InitModel None]\<rparr>) \<and>
      (initModel env None st = (Inr ready, st2) \<longrightarrow>
       convertToFile y = Inr inputFile \<longrightarrow>
       processImage env inputFile st2 = (Inr processedFile, st3) \<longrightarrow>
         removeBackgroundAsBlob env y (snd (removeBackgroundAsBlob env x w)) =
           (Inr processedFile,
            \<lparr>lib = st3,
             calls = calls w @ [InitModel None, InitModel None, ProcessImage inputFile]\<rparr>)))"
proof -
  have a: "\<exists>tail. calls (snd (removeBackground env x w)) = calls w @ InitModel None # tail \<and>
      (tail = [] \<or> (\<exists>inputFile. tail = [ProcessImage inputFile]))"
    unfolding removeBackground_unfold
    by (simp split: prod.split sum.split option.split)
  have b: "\<exists>tail. calls (snd (removeBackgroundAsBlob env x w)) = calls w @ InitModel None # tail \<and>
      (tail = [] \<or> (\<exists>inputFile. tail = [ProcessImage inputFile]))"
    unfolding removeBackgroundAsBlob_unfold
    by (simp split: prod.split sum.split)
  have c: "removeBackground env x w =
        (Inl (rethrow ''Failed to remove background'' e),
         \<lparr>lib = st, calls = calls w @ [InitModel None]\<rparr>)"
    if "initModel env None (lib w) = (Inl e, st)"
    unfolding removeBackground_unfold by (simp add: that)
  have d: "removeBackgroundAsBlob env x w =
        (Inl (rethrow ''Failed to remove background'' e),
         \<lparr>lib = st, calls = calls w @ [InitModel None]\<rparr>)"
    if "initModel env None (lib w) = (Inl e, st)"
    unfolding removeBackgroundAsBlob_unfold by (simp add: that)
  have f: "removeBackgroundAsBlob env y (snd (removeBackgroundAsBlob env x w)) =
           (Inr processedFile,
            \<lparr>lib = st3,
             calls = calls w @ [InitModel None, InitModel None, ProcessImage inputFile]\<rparr>)"
    if "initModel env None (lib w) = (Inl e, st)" "initModel env None st = (Inr ready, st2)"
      "convertToFile y = Inr inputFile" "processImage env inputFile st2 = (Inr processedFile, st3)"
    unfolding d [OF that(1)]
    by (subst removeBackgroundAsBlob_unfold) (simp add: that)
  from a b c d f show ?thesis by blast
qed

theorem initModel_precedes_processImage_witness:
  "initModel process_env None (lib world_retry) =
     (Inl (ErrorObj ''Error'' ''Failed to load model''),
      \<lparr>lifecycle = Failed ''briaai/RMBG-1.4'' ''Failed to load model'', accelerated = False,
       constrainedPlatform = False, load_outcomes = [True],
       inference_outcomes =
         [Inr \<lparr>file_bytes = [1, 2, 3], file_name = ''out.png'', file_type = ''image/png''\<rparr>]\<rparr>) \<and>
   removeBackgroundAsBlob process_env (StringData ''QUJD'') world_retry =
     (Inl (ErrorObj ''Error'' ''Failed to load model''),
      \<lparr>lib = \<lparr>lifecycle = Failed ''briaai/RMBG-1.4'' ''Failed to load model'',
               accelerated = False, constrainedPlatform = False, load_outcomes = [True],
               inference_outcomes =
                 [Inr \<lparr>file_bytes = [1, 2, 3], file_name = ''out.png'',
                        file_type = ''image/png''\<rparr>]\<rparr>,
       calls = [InitModel None]\<rparr>) \<and>
   removeBackgroundAsBlob process_env (StringData ''QUJD'')
       (snd (removeBackgroundAsBlob process_env (StringData ''QUJD'') world_retry)) =
     (Inr \<lparr>file_bytes = [1, 2, 3], file_name = ''out.png'', file_type = ''image/png''\<rparr>,
      \<lparr>lib = \<lparr>lifecycle = Ready ''briaai/RMBG-1.4'' CpuFallback, accelerated = False,
               constrainedPlatform = False, load_outcomes = [], inference_outcomes = []\<rparr>,
       calls = [InitModel None, InitModel None,
                ProcessImage \<lparr>file_bytes = [65, 66, 67], file_name = ''input-image.png'',
                               file_type = ''image/png''\<rparr>]\<rparr>)"
proof -
  let ?failed = "\<lparr>lifecycle = Failed ''briaai/RMBG-1.4'' ''Failed to load model'',
       accelerated = False, constrainedPlatform = False, load_outcomes = [True],
       inference_outcomes =
         [Inr \<lparr>file_bytes = [1, 2, 3], file_name = ''out.png'', file_type = ''image/png''\<rparr>]\<rparr>"
  let ?ready = "\<lparr>lifecycle = Ready ''briaai/RMBG-1.4'' CpuFallback, accelerated = False,
       constrainedPlatform = False, load_outcomes = [],
       inference_outcomes =
         [Inr \<lparr>file_bytes = [1, 2, 3], file_name = ''out.png'', file_type = ''image/png''\<rparr>]\<rparr>"
  let ?done = "\<lparr>lifecycle = Ready ''briaai/RMBG-1.4'' CpuFallback, accelerated = False,
       constrainedPlatform = False, load_outcomes = [], inference_outcomes = []\<rparr>"
  let ?input = "\<lparr>file_bytes = [65, 66, 67], file_name = ''input-image.png'',
       file_type = ''image/png''\<rparr>"
  let ?output = "\<lparr>file_bytes = [1, 2, 3], file_name = ''out.png'', file_type = ''image/png''\<rparr>"
  have h1: "initModel process_env None (lib world_retry) =
      (Inl (ErrorObj ''Error'' ''Failed to load model''), ?failed)"
    by code_simp
  have h2: "initModel process_env None ?failed = (Inr True, ?ready)"
    by code_simp
  have h3: "convertToFile (StringData ''QUJD'') = Inr ?input"
    by code_simp
  have h4: "processImage process_env ?input ?ready = (Inr ?output, ?done)"
    by code_simp
  have c: "calls world_retry = []" by (simp add: world0_def world_retry_def)
  have r: "rethrow ''Failed to remove background'' (ErrorObj ''Error'' ''Failed to load model'') =
      ErrorObj ''Error'' ''Failed to load model''"
    by (simp add: rethrow_def)
  note main = initModel_precedes_processImage
    [of process_env "StringData ''QUJD''" world_retry "ErrorObj ''Error'' ''Failed to load model''"
      ?failed True ?ready "StringData ''QUJD''" ?input ?output ?done]
  from main h1 have k1: "removeBackgroundAsBlob process_env (StringData ''QUJD'') world_retry =
      (Inl (rethrow ''Failed to remove background'' (ErrorObj ''Error'' ''Failed to load model'')),
       \<lparr>lib = ?failed, calls = calls world_retry @ [InitModel None]\<rparr>)"
    by blast
  from main h1 h2 h3 h4 have k2: "removeBackgroundAsBlob process_env (StringData ''QUJD'')
       (snd (removeBackgroundAsBlob process_env (StringData ''QUJD'') world_retry)) =
      (Inr ?output,
       \<lparr>lib = ?done,
        calls = calls world_retry @ [InitModel None, InitModel None, ProcessImage ?input]\<rparr>)"
    by blast
  show ?thesis
    using h1 k1 [unfolded c r] k2 [unfolded c] by (simp only: append_Nil simp_thms)
qed

lemma js_includes_prefix: "js_includes (m @ rest) m"
proof (cases "m @ rest")
  case Nil
  then show ?thesis by (simp add: js_includes_def)
next
  case (Cons c cs)
  have "prefix m (m @ rest)" by simp
  then have "indexOf (m @ rest) m = Some 0" unfolding Cons by simp
  then show ?thesis by (simp add: js_includes_def)
qed

text \<open>
  Claim C6. When the load of the new model fails in a model switch and the fallback load
  succeeds, the system is Ready again on the previously active model, or on the platform
  default when no model was active (the switch started from Failed): it is not left in
  Failed. The caller receives an error, not a success, whose message holds "Falling
  back". The service's \<^verbatim>\<open>initializeModel\<close> passes that message on unchanged, and
  the page's \<^verbatim>\<open>handleModelChange\<close> recognises it: it resets its selection to the
  default model and shows no error.
\<close>

theorem failed_switch_falls_back:
  "(lifecycle s = Ready prev b \<longrightarrow> load_outcomes s = False # True # later \<longrightarrow>
      switchModel newId s =
        (Inl (fallback_error prev),
         s\<lparr>lifecycle := Ready prev (select_backend s), load_outcomes := later\<rparr>)) \<and>
   (lifecycle sf = Failed m cause \<longrightarrow> load_outcomes sf = False # True # later \<longrightarrow>
      switchModel newId sf =
        (Inl (fallback_error default_model),
         sf\<lparr>lifecycle := Ready default_model (select_backend sf), load_outcomes := later\<rparr>)) \<and>
   js_includes (error_message (fallback_error fallbackId)) ''Falling back'' \<and>
   (initModel env modelId (lib w) = (Inl (ErrorObj n msg), st) \<longrightarrow>
      initializeModel env modelId w =
        (Inl (ErrorObj ''Error'' msg), \<lparr>lib = st, calls = calls w @ [InitModel modelId]\<rparr>)) \<and>
   (initModel env (Some newId) st0 = (Inl (ErrorObj n msg), st) \<longrightarrow>
    js_includes msg ''Falling back'' \<longrightarrow>
      handleModelChange env newId (u, st0) =
        (u\<lparr>appError := None, currentModel := ''briaai/RMBG-1.4'', isModelSwitching := False\<rparr>,
         st))"
proof -
  have ready: "switchModel newId s =
        (Inl (fallback_error prev),
         s\<lparr>lifecycle := Ready prev (select_backend s), load_outcomes := later\<rparr>)"
    if "lifecycle s = Ready prev b" "load_outcomes s = False # True # later"
    using that by (simp add: switchModel_def switch_from_def load_model_def select_backend_def)
  have failed: "switchModel newId sf =
        (Inl (fallback_error default_model),
         sf\<lparr>lifecycle := Ready default_model (select_backend sf), load_outcomes := later\<rparr>)"
    if "lifecycle sf = Failed m cause" "load_outcomes sf = False # True # later"
    using that by (simp add: switchModel_def switch_from_def load_model_def select_backend_def)
  have marker: "js_includes (error_message (fallback_error fallbackId)) ''Falling back''"
    using js_includes_prefix [of "''Falling back''" "'' to '' @ fallbackId"]
    by (simp add: fallback_error_def)
  have wrapper: "initializeModel env modelId w =
        (Inl (ErrorObj ''Error'' msg), \<lparr>lib = st, calls = calls w @ [InitModel modelId]\<rparr>)"
    if "initModel env modelId (lib w) = (Inl (ErrorObj n msg), st)"
    unfolding initializeModel_unfold by (simp add: that rethrow_def)
  have page: "handleModelChange env newId (u, st0) =
        (u\<lparr>appError := None, currentModel := ''briaai/RMBG-1.4'', isModelSwitching := False\<rparr>,
         st)"
    if "initModel env (Some newId) st0 = (Inl (ErrorObj n msg), st)"
      "js_includes msg ''Falling back''"
    using that by (simp add: handleModelChange_def)
  from ready failed marker wrapper page show ?thesis by blast
qed

theorem failed_switch_falls_back_witness:
  "lifecycle (lib world_switch) = Ready ''briaai/RMBG-1.4'' Accelerated \<and>
   load_outcomes (lib world_switch) = [False, True] \<and>
   switchModel ''Xenova/modnet'' (lib world_switch) =
     (Inl (ErrorObj ''Error'' ''Falling back to briaai/RMBG-1.4''),
      \<lparr>lifecycle = Ready ''briaai/RMBG-1.4'' Accelerated, accelerated = True,
       constrainedPlatform = False, load_outcomes = [], inference_outcomes = []\<rparr>) \<and>
   lifecycle (lib world_failed) = Failed ''Xenova/modnet'' ''Failed to load model'' \<and>
   load_outcomes (lib world_failed) = [False, True] \<and>
   switchModel ''Xenova/modnet'' (lib world_failed) =
     (Inl (ErrorObj ''Error'' ''Falling back to briaai/RMBG-1.4''),
      \<lparr>lifecycle = Ready ''briaai/RMBG-1.4'' Accelerated, accelerated = True,
       constrainedPlatform = False, load_outcomes = [], inference_outcomes = []\<rparr>) \<and>
   initModel process_env (Some ''Xenova/modnet'') (lib world_switch) =
     (Inl (ErrorObj ''Error'' ''Falling back to briaai/RMBG-1.4''),
      \<lparr>lifecycle = Ready ''briaai/RMBG-1.4'' Accelerated, accelerated = True,
       constrainedPlatform = False, load_outcomes = [], inference_outcomes = []\<rparr>) \<and>
   js_includes ''Falling back to briaai/RMBG-1.4'' ''Falling back'' \<and>
   initializeModel process_env (Some ''Xenova/modnet'') world_switch =
     (Inl (ErrorObj ''Error'' ''Falling back to briaai/RMBG-1.4''),
      \<lparr>lib = \<lparr>lifecycle = Ready ''briaai/RMBG-1.4'' Accelerated, accelerated = True,
               constrainedPlatform = False, load_outcomes = [], inference_outcomes = []\<rparr>,
       calls = [InitModel (Some ''Xenova/modnet'')]\<rparr>) \<and>
   handleModelChange process_env ''Xenova/modnet'' (page0, lib world_switch) =
     (\<lparr>isLoading = True, appError = None, isWebGPU = False, isIOS = Some (JBool False),
       currentModel = ''briaai/RMBG-1.4'', isModelSwitching = False\<rparr>,
      \<lparr>lifecycle = Ready ''briaai/RMBG-1.4'' Accelerated, accelerated = True,
       constrainedPlatform = False, load_outcomes = [], inference_outcomes = []\<rparr>)"
proof -
  let ?after = "\<lparr>lifecycle = Ready ''briaai/RMBG-1.4'' Accelerated, accelerated = True,
       constrainedPlatform = False, load_outcomes = [], inference_outcomes = []\<rparr>"
  let ?err = "ErrorObj ''Error'' ''Falling back to briaai/RMBG-1.4''"
  have h1: "lifecycle (lib world_switch) = Ready ''briaai/RMBG-1.4'' Accelerated"
    and h2: "load_outcomes (lib world_switch) = False # True # []"
    and h3: "lifecycle (lib world_failed) = Failed ''Xenova/modnet'' ''Failed to load model''"
    and h4: "load_outcomes (lib world_failed) = False # True # []"
    by (simp_all add: world_switch_def world_failed_def)
  have h5: "initModel process_env (Some ''Xenova/modnet'') (lib world_switch) =
      (Inl (ErrorObj ''Error'' ''Falling back to briaai/RMBG-1.4''), ?after)"
    by code_simp
  have h6: "js_includes ''Falling back to briaai/RMBG-1.4'' ''Falling back''"
    by code_simp
  note main = failed_switch_falls_back
    [of "lib world_switch" "''briaai/RMBG-1.4''" Accelerated "[]" "''Xenova/modnet''"
      "lib world_failed" "''Xenova/modnet''" "''Failed to load model''" "''briaai/RMBG-1.4''"
      process_env "Some ''Xenova/modnet''" world_switch "''Error''"
      "''Falling back to briaai/RMBG-1.4''" ?after "lib world_switch" page0]
  from main h1 h2 have k1: "switchModel ''Xenova/modnet'' (lib world_switch) =
      (Inl (fallback_error ''briaai/RMBG-1.4''),
       (lib world_switch)\<lparr>lifecycle := Ready ''briaai/RMBG-1.4'' (select_backend (lib world_switch)),
         load_outcomes := []\<rparr>)"
    by blast
  from main h3 h4 have k2: "switchModel ''Xenova/modnet'' (lib world_failed) =
      (Inl (fallback_error default_model),
       (lib world_failed)\<lparr>lifecycle := Ready default_model (select_backend (lib world_failed)),
         load_outcomes := []\<rparr>)"
    by blast
  from main h5 have k3: "initializeModel process_env (Some ''Xenova/modnet'') world_switch =
      (Inl ?err, \<lparr>lib = ?after, calls = calls world_switch @ [InitModel (Some ''Xenova/modnet'')]\<rparr>)"
    by blast
  from main h5 h6 have k4: "handleModelChange process_env ''Xenova/modnet'' (page0, lib world_switch) =
      (page0\<lparr>appError := None, currentModel := ''briaai/RMBG-1.4'', isModelSwitching := False\<rparr>,
       ?after)"
    by blast
  have e1: "switchModel ''Xenova/modnet'' (lib world_switch) = (Inl ?err, ?after)"
    unfolding k1 by (simp add: fallback_error_def select_backend_def world_switch_def)
  have e2: "switchModel ''Xenova/modnet'' (lib world_failed) = (Inl ?err, ?after)"
    unfolding k2
    by (simp add: fallback_error_def select_backend_def world_failed_def default_model_def)
  have e3: "initializeModel process_env (Some ''Xenova/modnet'') world_switch =
      (Inl ?err, \<lparr>lib = ?after, calls = [InitModel (Some ''Xenova/modnet'')]\<rparr>)"
    unfolding k3 by (simp add: world_switch_def)
  have e4: "handleModelChange process_env ''Xenova/modnet'' (page0, lib world_switch) =
     (\<lparr>isLoading = True, appError = None, isWebGPU = False, isIOS = Some (JBool False),
       currentModel = ''briaai/RMBG-1.4'', isModelSwitching = False\<rparr>, ?after)"
    unfolding k4 by (simp add: page0_def)
  from h1 h2 h3 h4 h5 h6 e1 e2 e3 e4 show ?thesis by (intro conjI) simp_all
qed

lemma queue_inv_initial: "queue_inv (initial_queue m)"
  by (simp add: queue_inv_def initial_queue_def)

lemma queue_inv_submit: "queue_inv q \<Longrightarrow> queue_inv (submit f q)"
  by (simp add: queue_inv_def submit_def)

lemma queue_inv_worker_turn: "queue_inv q \<Longrightarrow> queue_inv (worker_turn q)"
  by (auto simp: queue_inv_def worker_turn_def split: list.split prod.split sum.split if_splits)

lemma queue_inv_runtime_returns: "queue_inv q \<Longrightarrow> queue_inv (runtime_returns outcome q)"
  by (auto simp: queue_inv_def runtime_returns_def split: list.split if_splits)

lemma queue_inv_step: "queue_inv q \<Longrightarrow> queue_inv (queue_step q e)"
  by (cases e) (simp_all add: queue_inv_submit queue_inv_worker_turn queue_inv_runtime_returns)

lemma queue_inv_run: "queue_inv q \<Longrightarrow> queue_inv (run_queue q events)"
  unfolding run_queue_def
  by (induction events arbitrary: q) (simp_all add: queue_inv_step)

text \<open>
  Claim C7. Under every pattern of submissions, that is after every sequence of
  submits, worker turns and runtime returns from the empty queue, at most one
  invocation of the inference runtime is in flight, and one is in flight exactly when
  the queue's flag is set. In particular a burst of five submits followed by worker
  turns starts a single inference.
\<close>

theorem at_most_one_inference_in_flight:
  "length (in_flight (run_queue (initial_queue m) events)) \<le> 1 \<and>
   executing (run_queue (initial_queue m) events) =
     (in_flight (run_queue (initial_queue m) events) \<noteq> []) \<and>
   map seq (in_flight
      (run_queue (initial_queue (lib world0))
         (replicate 5 (Submit f) @ [WorkerTurn, WorkerTurn, WorkerTurn]))) = [0]"
proof -
  have "queue_inv (run_queue (initial_queue m) events)"
    by (rule queue_inv_run) (rule queue_inv_initial)
  then have a: "length (in_flight (run_queue (initial_queue m) events)) \<le> 1"
    and b: "executing (run_queue (initial_queue m) events) =
      (in_flight (run_queue (initial_queue m) events) \<noteq> [])"
    by (auto simp: queue_inv_def split: if_splits)
  have c: "map seq (in_flight
      (run_queue (initial_queue (lib world0))
         (replicate 5 (Submit f) @ [WorkerTurn, WorkerTurn, WorkerTurn]))) = [0]"
    by (simp add: run_queue_def initial_queue_def world0_def numeral_eq_Suc submit_def
        worker_turn_def ensureReady_def initialize_def load_model_def select_backend_def
        default_model_def)
  from a b c show ?thesis by (intro conjI)
qed




text \<open>
  Claim C9, as amended. For every string input, input marshalling takes the text between
  the first \<^verbatim>\<open>base64,\<close> marker and the next one, or the end of the string when
  there is no further marker (the whole string when there is no marker at all): that
  is the claimed remainder behind the first marker, cut at its own first marker. It
  decodes that text as base64, failing with the decode error where \<^verbatim>\<open>atob\<close>
  refuses it, and wraps the bytes as a File named \<^verbatim>\<open>input-image.png\<close> of type
  \<^verbatim>\<open>image/png\<close>, whatever the image's format. For every Blob input the
  Blob's type is kept, \<^verbatim>\<open>image/png\<close> standing in for an empty one.
\<close>

theorem convertToFile_marshalling:
  "convertToFile (StringData s) =
     (case atob (marker_segment s) of
        None \<Rightarrow> Inl InvalidCharacterError
      | Some byteString \<Rightarrow>
          Inr \<lparr>file_bytes = map (\<lambda>c. of_nat (of_char c)) byteString,
               file_name = ''input-image.png'', file_type = ''image/png''\<rparr>) \<and>
   marker_segment s =
     (case indexOf (claimed_remainder s) ''base64,'' of
        None \<Rightarrow> claimed_remainder s
      | Some j \<Rightarrow> take j (claimed_remainder s)) \<and>
   convertToFile (BlobData b) =
     Inr \<lparr>file_bytes = blob_bytes b, file_name = ''input-image.png'',
          file_type = (if blob_type b = [] then ''image/png'' else blob_type b)\<rparr>"
proof -
  have 1: "convertToFile (StringData s) =
     (case atob (marker_segment s) of
        None \<Rightarrow> Inl InvalidCharacterError
      | Some byteString \<Rightarrow>
          Inr \<lparr>file_bytes = map (\<lambda>c. of_nat (of_char c)) byteString,
               file_name = ''input-image.png'', file_type = ''image/png''\<rparr>)"
    by (simp add: convertToFile_def base64Data_segment fill_bytes_all Let_def
        split: option.split)
  have 2: "marker_segment s =
     (case indexOf (claimed_remainder s) ''base64,'' of
        None \<Rightarrow> claimed_remainder s
      | Some j \<Rightarrow> take j (claimed_remainder s))"
    by (simp add: marker_segment_def claimed_remainder_def split: option.split)
  have 3: "convertToFile (BlobData b) =
     Inr \<lparr>file_bytes = blob_bytes b, file_name = ''input-image.png'',
          file_type = (if blob_type b = [] then ''image/png'' else blob_type b)\<rparr>"
    by (simp add: convertToFile_def)
  from 1 2 3 show ?thesis by (intro conjI)
qed

text \<open>
  The claim as stated fails where the marker occurs twice: what follows the first
  marker is then not base64 (it holds a comma), yet the call succeeds, on the text
  between the two markers.
\<close>

theorem second_marker_cuts_remainder:
  "claimed_remainder ''data:image/png;base64,QUJDbase64,AAAA'' = ''QUJDbase64,AAAA'' \<and>
   atob ''QUJDbase64,AAAA'' = None \<and>
   convertToFile (StringData ''data:image/png;base64,QUJDbase64,AAAA'') =
     Inr \<lparr>file_bytes = [65, 66, 67], file_name = ''input-image.png'',
          file_type = ''image/png''\<rparr>"
  by code_simp




end
